theory Spec2Isabelle
  imports Complex_Main "HOL-Library.AList"
begin

section \<open>Common data\<close>

text \<open>
  The Python sources compute prices and profit-and-loss figures in binary floating point.
  For the position books, the P&L figures and the drawdown, every such number is an exact
  rational (\<open>rat\<close>) here: those parts verify the arithmetic the code writes down, not the
  rounding of the floating-point unit. The quoted prices of the market-making strategy
  depend on that rounding, so they are computed in a model of IEEE 754 double precision
  (section "Double precision" below). Share and contract quantities are Python integers
  (\<open>int\<close>). Dictionaries that the code iterates over are association lists in insertion
  order; a key that is written again keeps its place, as in a Python dict.
\<close>

datatype error = KeyError | AttributeError | ZeroDivisionError | ValueError | OverflowError
  | OrderNotFound | InvalidStateTransition string

text \<open>\<open>datetime.time\<close>: hour, minute, second, microsecond, compared field by field.\<close>

datatype pytime = Time (hour: nat) (minute: nat) (second: nat) (microsecond: nat)

definition time_lt :: "pytime \<Rightarrow> pytime \<Rightarrow> bool" where
  "time_lt a b \<longleftrightarrow>
     hour a < hour b \<or> (hour a = hour b \<and>
       (minute a < minute b \<or> (minute a = minute b \<and>
         (second a < second b \<or> (second a = second b \<and> microsecond a < microsecond b)))))"

definition time_le :: "pytime \<Rightarrow> pytime \<Rightarrow> bool" where
  "time_le a b \<longleftrightarrow> a = b \<or> time_lt a b"

text \<open>The order statuses the executor assigns (executor.py).\<close>

datatype order_status = PENDING | OPEN | REJECTED | COMPLETE | CANCELLED | ERROR

text \<open>How an f-string prints a status, and a value that may be \<open>None\<close>.\<close>

fun status_str :: "order_status \<Rightarrow> string" where
  "status_str PENDING = ''PENDING''"
| "status_str OPEN = ''OPEN''"
| "status_str REJECTED = ''REJECTED''"
| "status_str COMPLETE = ''COMPLETE''"
| "status_str CANCELLED = ''CANCELLED''"
| "status_str ERROR = ''ERROR''"

fun str_or_None :: "string option \<Rightarrow> string" where
  "str_or_None None = ''None''"
| "str_or_None (Some s) = s"

text \<open>The order dictionary built by \<open>OrderExecutor.place_order\<close>; \<open>price\<close> and
  \<open>rejection_reason\<close> are keys that may be absent.\<close>

record order =
  o_instrument :: string
  o_transaction_type :: string
  o_quantity :: int
  o_order_type :: string
  o_strategy :: "string option"
  o_timestamp :: string
  o_status :: order_status
  o_price :: "rat option"
  o_rejection_reason :: "string option"
  o_order_id :: string

section \<open>risk.py: RiskManager\<close>

record risk_params =
  max_position_size :: "string \<rightharpoonup> int"
  max_daily_loss :: rat
  max_notional_exposure :: rat
  max_drawdown :: rat
  market_hours_start :: pytime
  market_hours_end :: pytime
  auto_square_off_time :: pytime
  max_open_orders :: int

text \<open>A position dictionary of the risk manager; \<open>update_position\<close> is its only writer and
  creates all four keys.\<close>

record risk_position =
  rp_quantity :: int
  rp_avg_price :: rat
  rp_last_price :: rat
  rp_pnl :: rat

record risk_manager =
  rm_risk_params :: risk_params
  rm_positions :: "(string \<times> risk_position) list"
  rm_orders :: "(string \<times> order) list"
  rm_daily_pnl :: rat
  rm_peak_pnl :: rat
  rm_current_drawdown :: rat
  rm_trading_enabled :: bool
  rm_risk_breach :: bool
  rm_risk_breach_reason :: "string option"

text \<open>The order dictionary handed to \<open>validate_order\<close>, read with \<open>dict.get\<close>: each key may
  be missing.\<close>

record order_request =
  rq_instrument :: "string option"
  rq_transaction_type :: "string option"
  rq_quantity :: "int option"

definition default_risk_params :: risk_params where
  "default_risk_params =
     \<lparr> max_position_size = [''default'' \<mapsto> 100, ''NIFTY'' \<mapsto> 50, ''BANKNIFTY'' \<mapsto> 25],
       max_daily_loss = 10000,
       max_notional_exposure = 1000000,
       max_drawdown = 5 / 100,
       market_hours_start = Time 9 15 0 0,
       market_hours_end = Time 15 30 0 0,
       auto_square_off_time = Time 15 15 0 0,
       max_open_orders = 50 \<rparr>"

text \<open>\<open>RiskManager.__init__\<close>.\<close>

definition RiskManager_init :: "risk_params option \<Rightarrow> risk_manager" where
  "RiskManager_init risk_params_arg =
     \<lparr> rm_risk_params = (case risk_params_arg of None \<Rightarrow> default_risk_params | Some p \<Rightarrow> p),
       rm_positions = [],
       rm_orders = [],
       rm_daily_pnl = 0,
       rm_peak_pnl = 0,
       rm_current_drawdown = 0,
       rm_trading_enabled = True,
       rm_risk_breach = False,
       rm_risk_breach_reason = None \<rparr>"

text \<open>The two clock checks read \<open>datetime.now\<close>; the reading is an argument here.\<close>

definition check_market_hours :: "risk_manager \<Rightarrow> pytime \<Rightarrow> bool" where
  "check_market_hours s now \<longleftrightarrow>
     time_le (market_hours_start (rm_risk_params s)) now \<and>
     time_le now (market_hours_end (rm_risk_params s))"

definition check_auto_square_off :: "risk_manager \<Rightarrow> pytime \<Rightarrow> bool" where
  "check_auto_square_off s now \<longleftrightarrow> time_le (auto_square_off_time (rm_risk_params s)) now"

definition position_quantity :: "risk_manager \<Rightarrow> string option \<Rightarrow> int" where
  "position_quantity s instrument =
     (case instrument of
        None \<Rightarrow> 0
      | Some i \<Rightarrow> (case map_of (rm_positions s) i of None \<Rightarrow> 0 | Some p \<Rightarrow> rp_quantity p))"

text \<open>\<open>max_position_size.get(instrument, max_position_size["default"])\<close>: the default is
  looked up first and raises when the key is missing.\<close>

definition position_limit_for :: "risk_manager \<Rightarrow> string option \<Rightarrow> error + int" where
  "position_limit_for s instrument =
     (case max_position_size (rm_risk_params s) ''default'' of
        None \<Rightarrow> Inl KeyError
      | Some d \<Rightarrow>
          (case instrument of
             None \<Rightarrow> Inr d
           | Some i \<Rightarrow>
               (case max_position_size (rm_risk_params s) i of
                  None \<Rightarrow> Inr d
                | Some l \<Rightarrow> Inr l)))"

definition check_position_limit :: "risk_manager \<Rightarrow> string option \<Rightarrow> int \<Rightarrow> error + bool" where
  "check_position_limit s instrument quantity_change =
     (let current_quantity = \<bar>position_quantity s instrument\<bar>;
          new_quantity = \<bar>current_quantity + quantity_change\<bar>
      in case position_limit_for s instrument of
           Inl e \<Rightarrow> Inl e
         | Inr limit \<Rightarrow> Inr (new_quantity \<le> limit))"

definition check_daily_loss_limit :: "risk_manager \<Rightarrow> bool" where
  "check_daily_loss_limit s \<longleftrightarrow> rm_daily_pnl s \<ge> - max_daily_loss (rm_risk_params s)"

definition check_drawdown_limit :: "risk_manager \<Rightarrow> bool" where
  "check_drawdown_limit s \<longleftrightarrow> rm_current_drawdown s \<le> max_drawdown (rm_risk_params s)"

fun total_exposure :: "(string \<times> risk_position) list \<Rightarrow> rat \<Rightarrow> rat" where
  "total_exposure [] acc = acc"
| "total_exposure ((instrument, position) # rest) acc =
     total_exposure rest (acc + of_int \<bar>rp_quantity position\<bar> * rp_last_price position)"

definition check_notional_exposure :: "risk_manager \<Rightarrow> bool" where
  "check_notional_exposure s \<longleftrightarrow>
     total_exposure (rm_positions s) 0 \<le> max_notional_exposure (rm_risk_params s)"

definition open_orders_count :: "(string \<times> order) list \<Rightarrow> int" where
  "open_orders_count os =
     int (length (filter (\<lambda>(oid, ord). o_status ord = OPEN \<or> o_status ord = PENDING) os))"

definition check_open_orders_limit :: "risk_manager \<Rightarrow> bool" where
  "check_open_orders_limit s \<longleftrightarrow>
     open_orders_count (rm_orders s) \<le> max_open_orders (rm_risk_params s)"

text \<open>The loop of \<open>update_pnl\<close>: it stores each position's P&L and accumulates the total,
  skipping a position with no quantity, no average price or no last price.\<close>

fun pnl_loop :: "(string \<times> risk_position) list \<Rightarrow> rat
    \<Rightarrow> (string \<times> risk_position) list \<times> rat" where
  "pnl_loop [] total_pnl = ([], total_pnl)"
| "pnl_loop ((instrument, position) # rest) total_pnl =
     (if rp_quantity position = 0 \<or> rp_avg_price position = 0 \<or> rp_last_price position = 0
      then (case pnl_loop rest total_pnl of
              (rest', t) \<Rightarrow> ((instrument, position) # rest', t))
      else (let pnl = (rp_last_price position - rp_avg_price position)
                        * of_int (rp_quantity position)
            in case pnl_loop rest (total_pnl + pnl) of
                 (rest', t) \<Rightarrow> ((instrument, position\<lparr>rp_pnl := pnl\<rparr>) # rest', t)))"

definition risk_update_pnl :: "risk_manager \<Rightarrow> risk_manager" where
  "risk_update_pnl s =
     (case pnl_loop (rm_positions s) 0 of
        (positions', total_pnl) \<Rightarrow>
          (let peak = (if total_pnl > rm_peak_pnl s then total_pnl else rm_peak_pnl s)
           in s\<lparr> rm_positions := positions',
                 rm_daily_pnl := total_pnl,
                 rm_peak_pnl := peak,
                 rm_current_drawdown := (if peak > 0 then (peak - total_pnl) / peak else 0) \<rparr>))"

definition risk_update_position :: "risk_manager \<Rightarrow> string \<Rightarrow> int \<Rightarrow> rat \<Rightarrow> risk_manager" where
  "risk_update_position s instrument quantity price =
     (let position = (case map_of (rm_positions s) instrument of
                        None \<Rightarrow> \<lparr>rp_quantity = 0, rp_avg_price = 0, rp_last_price = 0, rp_pnl = 0\<rparr>
                      | Some p \<Rightarrow> p);
          position' = position\<lparr>rp_quantity := quantity, rp_last_price := price\<rparr>
      in risk_update_pnl
           (s\<lparr>rm_positions := AList.update instrument position' (rm_positions s)\<rparr>))"

text \<open>A run of \<open>update_position\<close> calls, each with its instrument, quantity and price.\<close>

fun risk_update_positions :: "risk_manager \<Rightarrow> (string \<times> int \<times> rat) list \<Rightarrow> risk_manager" where
  "risk_update_positions s [] = s"
| "risk_update_positions s ((instrument, quantity, price) # calls) =
     risk_update_positions (risk_update_position s instrument quantity price) calls"

definition breach :: "risk_manager \<Rightarrow> string \<Rightarrow> bool \<times> risk_manager" where
  "breach s reason =
     (False, s\<lparr> rm_trading_enabled := False, rm_risk_breach := True,
                 rm_risk_breach_reason := Some reason \<rparr>)"

text \<open>\<open>check_all_risk_limits\<close>; \<open>now1\<close> is the clock as read by the market-hours check and
  \<open>now2\<close> as read by the square-off check.\<close>

definition check_all_risk_limits :: "risk_manager \<Rightarrow> pytime \<Rightarrow> pytime \<Rightarrow> bool \<times> risk_manager" where
  "check_all_risk_limits s now1 now2 =
     (if \<not> check_market_hours s now1 then breach s ''Outside market hours''
      else if \<not> check_daily_loss_limit s then breach s ''Daily loss limit exceeded''
      else if \<not> check_drawdown_limit s then breach s ''Drawdown limit exceeded''
      else if \<not> check_notional_exposure s then breach s ''Notional exposure limit exceeded''
      else if \<not> check_open_orders_limit s then breach s ''Open orders limit exceeded''
      else if check_auto_square_off s now2 then breach s ''Auto square off time reached''
      else (True, s\<lparr> rm_trading_enabled := True, rm_risk_breach := False,
                      rm_risk_breach_reason := None \<rparr>))"

definition validate_order :: "risk_manager \<Rightarrow> order_request \<Rightarrow> error + (bool \<times> string)" where
  "validate_order s req =
     (if \<not> rm_trading_enabled s
      then Inr (False, ''Trading disabled: '' @ str_or_None (rm_risk_breach_reason s))
      else
        (let instrument = rq_instrument req;
             transaction_type = rq_transaction_type req;
             quantity = (case rq_quantity req of None \<Rightarrow> 0 | Some q \<Rightarrow> q);
             quantity_change = (if transaction_type = Some ''BUY'' then quantity else - quantity)
         in case check_position_limit s instrument quantity_change of
              Inl e \<Rightarrow> Inl e
            | Inr ok \<Rightarrow>
                if \<not> ok
                then Inr (False, ''Position limit exceeded for '' @ str_or_None instrument)
                else Inr (True, ''Order validated'')))"

section \<open>backtest.py: Backtest\<close>

text \<open>A signal dictionary, read with \<open>dict.get\<close>: quantity, price and order type may be
  missing.\<close>

record signal =
  sg_instrument :: string
  sg_action :: string
  sg_quantity :: "int option"
  sg_price :: "rat option"
  sg_order_type :: "string option"

text \<open>A trade dictionary. \<open>t_pnl\<close> is the key \<open>'pnl'\<close> that the win-rate computation reads
  with \<open>trade.get('pnl', 0)\<close>; \<open>None\<close> means the key is absent.\<close>

record trade =
  t_instrument :: string
  t_action :: string
  t_quantity :: int
  t_price :: rat
  t_timestamp :: string
  t_order_type :: string
  t_pnl :: "rat option"

record bt_position =
  bp_quantity :: int
  bp_avg_price :: rat
  bp_current_price :: rat
  bp_realized_pnl :: rat

text \<open>The part of the backtester's state that trade execution and the metrics use.\<close>

record backtest =
  bt_trades :: "trade list"
  bt_positions :: "(string \<times> bt_position) list"

definition backtest_start :: backtest where
  "backtest_start = \<lparr> bt_trades = [], bt_positions = [] \<rparr>"

text \<open>The body of \<open>Backtest.update_position\<close> on the position dictionary of the trade's
  instrument.\<close>

definition apply_trade :: "bt_position \<Rightarrow> string \<Rightarrow> int \<Rightarrow> rat \<Rightarrow> bt_position" where
  "apply_trade position action quantity price =
     (let trade_value = of_int quantity * price;
          position1 =
            (if action = ''BUY'' then
               (let p1 = (if bp_quantity position + quantity \<noteq> 0
                          then position\<lparr>bp_avg_price :=
                                 (of_int (bp_quantity position) * bp_avg_price position + trade_value)
                                   / of_int (bp_quantity position + quantity)\<rparr>
                          else position)
                in p1\<lparr>bp_quantity := bp_quantity p1 + quantity\<rparr>)
             else if action = ''SELL'' then
               (let p1 = (if bp_quantity position > 0
                          then position\<lparr>bp_realized_pnl := bp_realized_pnl position
                                 + (price - bp_avg_price position)
                                     * of_int (min quantity (bp_quantity position))\<rparr>
                          else position);
                    p2 = p1\<lparr>bp_quantity := bp_quantity p1 - quantity\<rparr>
                in if bp_quantity p2 < 0 \<and> bp_quantity p2 + quantity > 0
                   then p2\<lparr>bp_avg_price := price\<rparr>
                   else p2)
             else position)
      in position1\<lparr>bp_current_price := price\<rparr>)"

definition backtest_update_position :: "backtest \<Rightarrow> trade \<Rightarrow> backtest" where
  "backtest_update_position s trade =
     (let instrument = t_instrument trade;
          price = t_price trade;
          position = (case map_of (bt_positions s) instrument of
                        None \<Rightarrow> \<lparr> bp_quantity = 0, bp_avg_price = 0,
                                   bp_current_price = price, bp_realized_pnl = 0 \<rparr>
                      | Some p \<Rightarrow> p)
      in s\<lparr>bt_positions :=
             AList.update instrument
               (apply_trade position (t_action trade) (t_quantity trade) price)
               (bt_positions s)\<rparr>)"

fun add_realized :: "(string \<times> bt_position) list \<Rightarrow> rat \<Rightarrow> rat" where
  "add_realized [] equity = equity"
| "add_realized ((instrument, position) # rest) equity =
     add_realized rest (equity + bp_realized_pnl position)"

fun add_unrealized :: "(string \<times> bt_position) list \<Rightarrow> rat \<Rightarrow> rat" where
  "add_unrealized [] equity = equity"
| "add_unrealized ((instrument, position) # rest) equity =
     (if bp_quantity position \<noteq> 0 \<and> bp_avg_price position \<noteq> 0
           \<and> bp_current_price position \<noteq> 0
      then add_unrealized rest
             (equity + (bp_current_price position - bp_avg_price position)
                         * of_int (bp_quantity position))
      else add_unrealized rest equity)"

definition calculate_equity :: "backtest \<Rightarrow> rat \<Rightarrow> rat" where
  "calculate_equity s initial_capital =
     add_unrealized (bt_positions s) (add_realized (bt_positions s) initial_capital)"

text \<open>\<open>execute_signal\<close>. When the signal has no usable price, or is a MARKET order, the
  method reads \<open>self.market_data\<close>, an attribute the class never sets: the read raises.
  After that branch the price is known to be usable, so the "skip" return cannot be taken;
  it is kept as the source has it.\<close>

definition execute_signal :: "backtest \<Rightarrow> signal \<Rightarrow> string \<Rightarrow> error + backtest" where
  "execute_signal s sg timestamp =
     (let quantity = (case sg_quantity sg of None \<Rightarrow> 0 | Some q \<Rightarrow> q);
          order_type = (case sg_order_type sg of None \<Rightarrow> ''LIMIT'' | Some t \<Rightarrow> t)
      in if sg_price sg = None \<or> sg_price sg = Some 0 \<or> order_type = ''MARKET''
         then Inl AttributeError
         else
           (case sg_price sg of
              None \<Rightarrow> Inr s
            | Some price \<Rightarrow>
                if price = 0 then Inr s
                else
                  (let trade = \<lparr> t_instrument = sg_instrument sg,
                                   t_action = sg_action sg,
                                   t_quantity = quantity,
                                   t_price = price,
                                   t_timestamp = timestamp,
                                   t_order_type = order_type,
                                   t_pnl = None \<rparr>;
                       s1 = backtest_update_position s trade
                   in Inr (s1\<lparr>bt_trades := bt_trades s1 @ [trade]\<rparr>))))"

text \<open>The signals of a run, each with the timestamp of its tick; an exception ends the
  run.\<close>

fun execute_signals :: "backtest \<Rightarrow> (signal \<times> string) list \<Rightarrow> error + backtest" where
  "execute_signals s [] = Inr s"
| "execute_signals s ((sg, timestamp) # rest) =
     (case execute_signal s sg timestamp of
        Inl e \<Rightarrow> Inl e
      | Inr s' \<Rightarrow> execute_signals s' rest)"

text \<open>The win-rate block of \<open>calculate_performance_metrics\<close>.\<close>

definition trade_pnl :: "trade \<Rightarrow> rat" where
  "trade_pnl t = (case t_pnl t of None \<Rightarrow> 0 | Some x \<Rightarrow> x)"

definition win_rate :: "trade list \<Rightarrow> rat" where
  "win_rate trades =
     (if length trades > 0
      then of_nat (length (filter (\<lambda>t. trade_pnl t > 0) trades)) / of_nat (length trades)
      else 0)"

section \<open>strategy.py: Strategy and MarketMakingStrategy\<close>






subsection \<open>Double precision\<close>

text \<open>
  A Python float is an IEEE 754 binary64 number: a finite value, an infinity or a NaN. A
  finite value is held as the rational it denotes; the sign of a zero is not kept, since
  nothing below can tell the two zeros apart. Every arithmetic operation computes the exact
  result and rounds it to the nearest double, a tie going to the even significand (\<open>fl\<close>).
\<close>

datatype pyfloat = Finite rat | PosInf | NegInf | NaN

text \<open>\<open>bits n\<close> is the number of binary digits of a positive integer, \<open>pow2 e\<close> is 2 to the
  power \<open>e\<close>, and \<open>binary_exponent x\<close> is the exponent \<open>e\<close> with
  \<open>2^e \<le> |x| < 2^(e+1)\<close> of a non-zero \<open>x\<close>.\<close>

function bits :: "int \<Rightarrow> int" where
  "bits n = (if n \<le> 0 then 0 else bits (n div 2) + 1)"
  by pat_completeness auto
termination
  by (relation "measure nat") auto

declare bits.simps [simp del]

function pow2 :: "int \<Rightarrow> rat" where
  "pow2 e = (if e = 0 then 1 else if 0 < e then 2 * pow2 (e - 1) else pow2 (e + 1) / 2)"
  by pat_completeness auto
termination
  by (relation "measure (\<lambda>e. nat \<bar>e\<bar>)") auto

declare pow2.simps [simp del]

definition binary_exponent :: "rat \<Rightarrow> int" where
  "binary_exponent x =
     (if 1 \<le> \<bar>x\<bar> then bits \<lfloor>\<bar>x\<bar>\<rfloor> - 1
      else - bits (\<lceil>1 / \<bar>x\<bar>\<rceil> - 1))"

text \<open>Python 3's \<open>round\<close> with one argument, on the value of a finite float: the nearest
  integer, and the even one of the two when the value lies exactly half way.\<close>

definition py_round :: "rat \<Rightarrow> int" where
  "py_round x =
     (let f = \<lfloor>x\<rfloor>; d = x - of_int f
      in if d < 1 / 2 then f
         else if d > 1 / 2 then f + 1
         else if even f then f else f + 1)"

text \<open>
  Rounding to the nearest double. The unit in the last place is \<open>2^(e-52)\<close> for a value of
  binary exponent \<open>e\<close>, and \<open>2^(-1074)\<close> for every value below \<open>2^(-1022)\<close> (the
  subnormal range). A result whose rounded magnitude reaches \<open>2^1024\<close> overflows to an
  infinity. A decimal literal such as \<open>0.05\<close> denotes \<open>fl (5 / 100)\<close>.
\<close>

definition fl :: "rat \<Rightarrow> pyfloat" where
  "fl x =
     (if x = 0 then Finite 0
      else
        (let e = max (binary_exponent x) (- 1022);
             ulp = pow2 (e - 52);
             y = of_int (py_round (x / ulp)) * ulp
         in if 1024 \<le> binary_exponent y then (if 0 < x then PosInf else NegInf)
            else Finite y))"

text \<open>Negation, multiplication, addition and subtraction of floats. They never
  raise.\<close>

fun fneg :: "pyfloat \<Rightarrow> pyfloat" where
  "fneg (Finite a) = Finite (- a)"
| "fneg PosInf = NegInf"
| "fneg NegInf = PosInf"
| "fneg NaN = NaN"

fun fmul :: "pyfloat \<Rightarrow> pyfloat \<Rightarrow> pyfloat" where
  "fmul NaN b = NaN"
| "fmul a NaN = NaN"
| "fmul (Finite a) (Finite b) = fl (a * b)"
| "fmul (Finite a) PosInf = (if a = 0 then NaN else if 0 < a then PosInf else NegInf)"
| "fmul (Finite a) NegInf = (if a = 0 then NaN else if 0 < a then NegInf else PosInf)"
| "fmul PosInf (Finite b) = (if b = 0 then NaN else if 0 < b then PosInf else NegInf)"
| "fmul NegInf (Finite b) = (if b = 0 then NaN else if 0 < b then NegInf else PosInf)"
| "fmul PosInf PosInf = PosInf"
| "fmul PosInf NegInf = NegInf"
| "fmul NegInf PosInf = NegInf"
| "fmul NegInf NegInf = PosInf"

fun fadd :: "pyfloat \<Rightarrow> pyfloat \<Rightarrow> pyfloat" where
  "fadd NaN b = NaN"
| "fadd a NaN = NaN"
| "fadd (Finite a) (Finite b) = fl (a + b)"
| "fadd (Finite a) PosInf = PosInf"
| "fadd (Finite a) NegInf = NegInf"
| "fadd PosInf (Finite b) = PosInf"
| "fadd NegInf (Finite b) = NegInf"
| "fadd PosInf PosInf = PosInf"
| "fadd NegInf NegInf = NegInf"
| "fadd PosInf NegInf = NaN"
| "fadd NegInf PosInf = NaN"

definition fsub :: "pyfloat \<Rightarrow> pyfloat \<Rightarrow> pyfloat" where
  "fsub a b = fadd a (fneg b)"

text \<open>True division raises for a zero divisor, whatever the dividend.\<close>

fun fdiv :: "pyfloat \<Rightarrow> pyfloat \<Rightarrow> error + pyfloat" where
  "fdiv a (Finite b) =
     (if b = 0 then Inl ZeroDivisionError
      else (case a of
              Finite x \<Rightarrow> Inr (fl (x / b))
            | PosInf \<Rightarrow> Inr (if 0 < b then PosInf else NegInf)
            | NegInf \<Rightarrow> Inr (if 0 < b then NegInf else PosInf)
            | NaN \<Rightarrow> Inr NaN))"
| "fdiv (Finite x) PosInf = Inr (Finite 0)"
| "fdiv (Finite x) NegInf = Inr (Finite 0)"
| "fdiv a b = Inr NaN"

text \<open>\<open>round\<close> of a float gives an integer, and raises for a NaN or an infinity.\<close>

fun round_float :: "pyfloat \<Rightarrow> error + int" where
  "round_float (Finite x) = Inr (py_round x)"
| "round_float NaN = Inl ValueError"
| "round_float PosInf = Inl OverflowError"
| "round_float NegInf = Inl OverflowError"

text \<open>An integer times a float: the integer is converted to a float first, which raises
  when it is too large for a double.\<close>

definition int_times_float :: "int \<Rightarrow> pyfloat \<Rightarrow> error + pyfloat" where
  "int_times_float n x =
     (case fl (of_int n) of
        Finite y \<Rightarrow> Inr (fmul (Finite y) x)
      | PosInf \<Rightarrow> Inl OverflowError
      | NegInf \<Rightarrow> Inl OverflowError
      | NaN \<Rightarrow> Inl OverflowError)"

subsection \<open>MarketMakingStrategy\<close>

text \<open>The strategy parameters; spread, increment and threshold are floats, and so is the
  mid price handed to the quoting methods.\<close>

record mm_params =
  spread_percentage :: pyfloat
  order_quantity :: int
  position_limit :: int
  min_price_increment :: pyfloat
  cancel_replace_threshold :: pyfloat

text \<open>\<open>round(price / increment) * increment\<close>, the last line of both quoting methods.\<close>

definition round_to_increment :: "pyfloat \<Rightarrow> pyfloat \<Rightarrow> error + pyfloat" where
  "round_to_increment price increment =
     (case fdiv price increment of
        Inl e \<Rightarrow> Inl e
      | Inr q \<Rightarrow>
          (case round_float q of
             Inl e \<Rightarrow> Inl e
           | Inr n \<Rightarrow> int_times_float n increment))"

definition calculate_bid_price :: "mm_params \<Rightarrow> pyfloat \<Rightarrow> error + pyfloat" where
  "calculate_bid_price params mid_price =
     (let spread = fmul mid_price (spread_percentage params);
          price = fsub mid_price spread
      in round_to_increment price (min_price_increment params))"

definition calculate_ask_price :: "mm_params \<Rightarrow> pyfloat \<Rightarrow> error + pyfloat" where
  "calculate_ask_price params mid_price =
     (let spread = fmul mid_price (spread_percentage params);
          price = fadd mid_price spread
      in round_to_increment price (min_price_increment params))"

text \<open>Rounding half up, as the specification describes the rounding rule.\<close>

definition spec_round_half_up :: "rat \<Rightarrow> int" where
  "spec_round_half_up x = \<lfloor>x + 1 / 2\<rfloor>"

section \<open>executor.py: OrderExecutor\<close>

text \<open>\<open>ex_fill_rate\<close> is an attribute that exists only once \<open>update_metrics\<close> has run.\<close>

record executor =
  ex_orders :: "(string \<times> order) list"
  ex_order_latencies :: "rat list"
  ex_total_orders :: int
  ex_filled_orders :: int
  ex_rejected_orders :: int
  ex_avg_latency_ms :: rat
  ex_fill_rate :: "rat option"

definition update_metrics :: "executor \<Rightarrow> executor" where
  "update_metrics s =
     (let s1 = (if ex_order_latencies s \<noteq> []
                then s\<lparr>ex_avg_latency_ms :=
                       sum_list (ex_order_latencies s) / of_nat (length (ex_order_latencies s))\<rparr>
                else s)
      in if ex_total_orders s1 > 0
         then s1\<lparr>ex_fill_rate := Some (of_int (ex_filled_orders s1) / of_int (ex_total_orders s1))\<rparr>
         else s1\<lparr>ex_fill_rate := Some 0\<rparr>)"

text \<open>
  \<open>modify_order\<close> and \<open>cancel_order\<close> answer with the order dictionary, or with an error
  dictionary \<open>{"status": "error", "message": ...}\<close>. The error dictionary for an unknown id
  is \<open>OrderNotFound\<close>; the one for an order that is neither OPEN nor PENDING is
  \<open>InvalidStateTransition\<close> and carries the message. Both methods are coroutines: they
  check the status, then wait for the broker (\<open>await asyncio.sleep\<close>), then write the
  outcome. Other calls can run while one waits, so each method is modelled in two parts:
  the part before the \<open>await\<close>, which returns an error or lets the call wait, and the part
  after it. The simulated broker draws a random number \<open>r\<close> from [0, 1) and the method
  measures its own latency; both are arguments of the second part. Nothing in the
  simulated call raises, so the exception handler is not reached.
\<close>

text \<open>\<open>modify_order\<close> up to the \<open>await\<close>: the lookup, the status check and the update of
  price and quantity.\<close>

definition modify_order_begin ::
    "executor \<Rightarrow> string \<Rightarrow> rat option \<Rightarrow> int option \<Rightarrow> error + executor" where
  "modify_order_begin s order_id price quantity =
     (case map_of (ex_orders s) order_id of
        None \<Rightarrow> Inl OrderNotFound
      | Some ord \<Rightarrow>
          if o_status ord \<noteq> OPEN \<and> o_status ord \<noteq> PENDING
          then Inl (InvalidStateTransition
                  (''Cannot modify order with status '' @ status_str (o_status ord)))
          else
            (let ord1 = (case price of
                           None \<Rightarrow> ord
                         | Some p \<Rightarrow> if p \<noteq> 0 then ord\<lparr>o_price := Some p\<rparr> else ord);
                 ord2 = (case quantity of
                           None \<Rightarrow> ord1
                         | Some q \<Rightarrow> if q \<noteq> 0 then ord1\<lparr>o_quantity := q\<rparr> else ord1)
             in Inr (s\<lparr>ex_orders := AList.update order_id ord2 (ex_orders s)\<rparr>)))"

text \<open>The rest of \<open>modify_order\<close>, from the point where the broker has answered. It writes
  to the order dictionary the method looked up before it waited; the executor never
  replaces or removes a stored dictionary in modify or cancel, so that dictionary is the
  one stored under the id (the first case cannot occur after an accepted call).\<close>

definition modify_order_resume ::
    "executor \<Rightarrow> string \<Rightarrow> rat \<Rightarrow> rat \<Rightarrow> (error + order) \<times> executor" where
  "modify_order_resume s order_id r latency_ms =
     (case map_of (ex_orders s) order_id of
        None \<Rightarrow> (Inl OrderNotFound, s)
      | Some ord \<Rightarrow>
          (let ord1 = (if r < 95 / 100 then ord else ord\<lparr>o_status := COMPLETE\<rparr>);
               filled = (if r < 95 / 100 then ex_filled_orders s else ex_filled_orders s + 1);
               s1 = s\<lparr> ex_orders := AList.update order_id ord1 (ex_orders s),
                       ex_filled_orders := filled,
                       ex_order_latencies := ex_order_latencies s @ [latency_ms] \<rparr>
           in (Inr ord1, update_metrics s1)))"

text \<open>\<open>cancel_order\<close>, in the same two parts.\<close>

definition cancel_order_begin :: "executor \<Rightarrow> string \<Rightarrow> error + executor" where
  "cancel_order_begin s order_id =
     (case map_of (ex_orders s) order_id of
        None \<Rightarrow> Inl OrderNotFound
      | Some ord \<Rightarrow>
          if o_status ord \<noteq> OPEN \<and> o_status ord \<noteq> PENDING
          then Inl (InvalidStateTransition
                  (''Cannot cancel order with status '' @ status_str (o_status ord)))
          else Inr s)"

definition cancel_order_resume ::
    "executor \<Rightarrow> string \<Rightarrow> rat \<Rightarrow> rat \<Rightarrow> (error + order) \<times> executor" where
  "cancel_order_resume s order_id r latency_ms =
     (case map_of (ex_orders s) order_id of
        None \<Rightarrow> (Inl OrderNotFound, s)
      | Some ord \<Rightarrow>
          (let ord1 = (if r < 98 / 100 then ord\<lparr>o_status := CANCELLED\<rparr>
                       else ord\<lparr>o_status := COMPLETE\<rparr>);
               filled = (if r < 98 / 100 then ex_filled_orders s else ex_filled_orders s + 1);
               s1 = s\<lparr> ex_orders := AList.update order_id ord1 (ex_orders s),
                       ex_filled_orders := filled,
                       ex_order_latencies := ex_order_latencies s @ [latency_ms] \<rparr>
           in (Inr ord1, update_metrics s1)))"

text \<open>
  The event loop: the executor together with the calls that are waiting for the broker,
  each holding the id of its order. An event is the invocation of \<open>modify_order\<close> or
  \<open>cancel_order\<close>, which runs up to the \<open>await\<close> and either answers with an error or
  joins the waiting calls, or the wake-up of the waiting call at a given position with the
  broker's draw and the measured latency, which runs the rest of the method and answers
  with the order. A wake-up at a position where no call waits does nothing. Waiting calls
  may wake in any order.
\<close>

datatype waiting = WaitingModify string | WaitingCancel string


record event_loop =
  el_executor :: executor
  el_waiting :: "waiting list"

datatype event =
    CallModify string "rat option" "int option"
  | CallCancel string
  | Wake nat rat rat

fun step :: "event_loop \<Rightarrow> event \<Rightarrow> (error + order) option \<times> event_loop" where
  "step l (CallModify order_id price quantity) =
     (case modify_order_begin (el_executor l) order_id price quantity of
        Inl e \<Rightarrow> (Some (Inl e), l)
      | Inr s1 \<Rightarrow>
          (None, l\<lparr> el_executor := s1,
                    el_waiting := el_waiting l @ [WaitingModify order_id] \<rparr>))"
| "step l (CallCancel order_id) =
     (case cancel_order_begin (el_executor l) order_id of
        Inl e \<Rightarrow> (Some (Inl e), l)
      | Inr s1 \<Rightarrow>
          (None, l\<lparr> el_executor := s1,
                    el_waiting := el_waiting l @ [WaitingCancel order_id] \<rparr>))"
| "step l (Wake k r latency_ms) =
     (if k < length (el_waiting l)
      then (case (case el_waiting l ! k of
                    WaitingModify order_id \<Rightarrow>
                      modify_order_resume (el_executor l) order_id r latency_ms
                  | WaitingCancel order_id \<Rightarrow>
                      cancel_order_resume (el_executor l) order_id r latency_ms) of
              (answer, s1) \<Rightarrow>
                (Some answer,
                 l\<lparr> el_executor := s1,
                    el_waiting := take k (el_waiting l) @ drop (Suc k) (el_waiting l) \<rparr>))
      else (None, l))"

fun run :: "event_loop \<Rightarrow> event list \<Rightarrow> (error + order) option list \<times> event_loop" where
  "run l [] = ([], l)"
| "run l (ev # evs) =
     (case step l ev of
        (answer, l1) \<Rightarrow> (case run l1 evs of (answers, l2) \<Rightarrow> (answer # answers, l2)))"




section \<open>The specification's reading of the risk checks\<close>

text \<open>The six checks in the order the specification lists them, each with whether it
  passes and the reason it records; the first failing one decides.\<close>

definition spec_checks :: "risk_manager \<Rightarrow> pytime \<Rightarrow> pytime \<Rightarrow> (bool \<times> string) list" where
  "spec_checks s now1 now2 =
     [ (check_market_hours s now1, ''Outside market hours''),
       (check_daily_loss_limit s, ''Daily loss limit exceeded''),
       (check_drawdown_limit s, ''Drawdown limit exceeded''),
       (check_notional_exposure s, ''Notional exposure limit exceeded''),
       (check_open_orders_limit s, ''Open orders limit exceeded''),
       (\<not> check_auto_square_off s now2, ''Auto square off time reached'') ]"

definition spec_check_all_limits :: "risk_manager \<Rightarrow> pytime \<Rightarrow> pytime \<Rightarrow> bool \<times> risk_manager" where
  "spec_check_all_limits s now1 now2 =
     (case find (\<lambda>(passes, reason). \<not> passes) (spec_checks s now1 now2) of
        None \<Rightarrow> (True, s\<lparr> rm_trading_enabled := True, rm_risk_breach := False,
                            rm_risk_breach_reason := None \<rparr>)
      | Some (passes, reason) \<Rightarrow>
          (False, s\<lparr> rm_trading_enabled := False, rm_risk_breach := True,
                     rm_risk_breach_reason := Some reason \<rparr>))"

section \<open>Invariants and sample inputs\<close>

text \<open>What a risk manager looks like when it has only ever been fed through
  \<open>update_position\<close>: no position has an average price, and the P&L figures are zero.\<close>

definition flat_book :: "risk_manager \<Rightarrow> bool" where
  "flat_book s \<longleftrightarrow> (\<forall>(i, p) \<in> set (rm_positions s). rp_avg_price p = 0)
     \<and> rm_daily_pnl s = 0 \<and> rm_peak_pnl s = 0 \<and> rm_current_drawdown s = 0"


text \<open>Sample inputs for the worked instances below.\<close>

definition demo_calls :: "(string \<times> int \<times> rat) list" where
  "demo_calls = [(''RELIANCE'', 10, 4691 / 2), (''INFY'', - 5, 7381 / 4), (''RELIANCE'', 12, 2000)]"


text \<open>\<open>self.positions.get(instrument)\<close> on the backtester, and a run of
  \<open>update_position\<close> calls.\<close>

definition position_of :: "backtest \<Rightarrow> string \<Rightarrow> bt_position option" where
  "position_of s instrument = map_of (bt_positions s) instrument"

fun backtest_update_positions :: "backtest \<Rightarrow> trade list \<Rightarrow> backtest" where
  "backtest_update_positions s [] = s"
| "backtest_update_positions s (t # ts) =
     backtest_update_positions (backtest_update_position s t) ts"

text \<open>A BUY fill of positive quantity on one instrument, and the total quantity and total
  value of a sequence of fills: the quantity-weighted mean of the prices is the total value
  over the total quantity.\<close>

definition buy_of :: "string \<Rightarrow> trade \<Rightarrow> bool" where
  "buy_of instrument t \<longleftrightarrow>
     t_instrument t = instrument \<and> t_action t = ''BUY'' \<and> 0 < t_quantity t"

definition total_quantity :: "trade list \<Rightarrow> int" where
  "total_quantity ts = sum_list (map t_quantity ts)"

definition total_value :: "trade list \<Rightarrow> rat" where
  "total_value ts = sum_list (map (\<lambda>t. of_int (t_quantity t) * t_price t) ts)"

text \<open>Rounding to the nearest integer with ties to the even one, as a relation between a
  value and its rounding.\<close>

definition nearest_ties_even :: "rat \<Rightarrow> int \<Rightarrow> bool" where
  "nearest_ties_even x n \<longleftrightarrow>
     \<bar>of_int n - x\<bar> \<le> 1 / 2 \<and> (x - of_int \<lfloor>x\<rfloor> = 1 / 2 \<longrightarrow> even n)"

text \<open>More sample inputs: the fills BUY 10 at 2345.50 and SELL 10 at 2350.00 on one
  instrument, the book after both, two BUY fills, the same round trip as signals, the
  market-making parameters of the quoting scenario and parameters under which a quote falls
  exactly half way between two increments, an executor holding one order, an event loop
  with that executor and no waiting call, and a modify and a cancel that overlap.\<close>

definition buy10 :: trade where
  "buy10 = \<lparr> t_instrument = ''X'', t_action = ''BUY'', t_quantity = 10, t_price = 4691 / 2,
             t_timestamp = ''2023-01-01T09:15:00'', t_order_type = ''LIMIT'', t_pnl = None \<rparr>"

definition sell10 :: trade where
  "sell10 = \<lparr> t_instrument = ''X'', t_action = ''SELL'', t_quantity = 10, t_price = 2350,
              t_timestamp = ''2023-01-01T09:16:00'', t_order_type = ''LIMIT'', t_pnl = None \<rparr>"

definition round_trip :: backtest where
  "round_trip = backtest_update_position (backtest_update_position backtest_start buy10) sell10"

definition two_buys :: "trade list" where
  "two_buys =
     [ \<lparr> t_instrument = ''X'', t_action = ''BUY'', t_quantity = 10, t_price = 100,
         t_timestamp = ''2023-01-01T09:15:00'', t_order_type = ''LIMIT'', t_pnl = None \<rparr>,
       \<lparr> t_instrument = ''X'', t_action = ''BUY'', t_quantity = 30, t_price = 200,
         t_timestamp = ''2023-01-01T09:16:00'', t_order_type = ''LIMIT'', t_pnl = None \<rparr> ]"

definition profitable_signals :: "(signal \<times> string) list" where
  "profitable_signals =
     [ (\<lparr> sg_instrument = ''X'', sg_action = ''BUY'', sg_quantity = Some 10,
           sg_price = Some (4691 / 2), sg_order_type = None \<rparr>, ''2023-01-01T09:15:00''),
       (\<lparr> sg_instrument = ''X'', sg_action = ''SELL'', sg_quantity = Some 10,
           sg_price = Some 2350, sg_order_type = Some ''LIMIT'' \<rparr>, ''2023-01-01T09:16:00'') ]"

definition scenario_params :: mm_params where
  "scenario_params = \<lparr> spread_percentage = fl (5 / 10000), order_quantity = 10,
       position_limit = 50, min_price_increment = fl (5 / 100),
       cancel_replace_threshold = fl (2 / 100) \<rparr>"

definition tie_params :: mm_params where
  "tie_params = \<lparr> spread_percentage = fl 0, order_quantity = 10, position_limit = 50,
       min_price_increment = fl (1 / 2), cancel_replace_threshold = fl (2 / 100) \<rparr>"







section \<open>Verified properties\<close>

subsection \<open>RiskManager: position limit\<close>

text \<open>
  C1. With trading enabled, \<open>validate_order\<close> should deny a signal exactly when the
  instrument's position after the signal's signed quantity (positive for BUY, negative for
  SELL) exceeds the size limit in absolute value. \<open>check_position_limit\<close> takes the
  absolute value of the current quantity before it adds the signed change, so on a short
  position the comparison is made on the wrong number. With NIFTY short 40 and a limit of
  50, a SELL of 20 (position -60, over the limit) is validated, and a BUY of 20
  (position -20, inside the limit) is refused.
\<close>

theorem validate_order_short_position:
  "validate_order (risk_update_position (RiskManager_init None) ''NIFTY'' (- 40) 22000)
     \<lparr> rq_instrument = Some ''NIFTY'', rq_transaction_type = Some ''SELL'',
       rq_quantity = Some 20 \<rparr>
     = Inr (True, ''Order validated'')
   \<and> validate_order (risk_update_position (RiskManager_init None) ''NIFTY'' (- 40) 22000)
     \<lparr> rq_instrument = Some ''NIFTY'', rq_transaction_type = Some ''BUY'',
       rq_quantity = Some 20 \<rparr>
     = Inr (False, ''Position limit exceeded for NIFTY'')
   \<and> position_quantity (risk_update_position (RiskManager_init None) ''NIFTY'' (- 40) 22000)
        (Some ''NIFTY'') = - 40
   \<and> position_limit_for (risk_update_position (RiskManager_init None) ''NIFTY'' (- 40) 22000)
        (Some ''NIFTY'') = Inr 50
   \<and> rm_trading_enabled (risk_update_position (RiskManager_init None) ''NIFTY'' (- 40) 22000)
   \<and> \<bar>(- 40) + (- 20)\<bar> > (50 :: int) \<and> \<bar>(- 40) + 20\<bar> \<le> (50 :: int)"
  by (simp add: validate_order_def check_position_limit_def position_limit_for_def
      position_quantity_def risk_update_position_def risk_update_pnl_def RiskManager_init_def
      default_risk_params_def)

subsection \<open>RiskManager: the order of the checks\<close>

text \<open>
  C2. \<open>check_all_risk_limits\<close> evaluates the six checks in the order trading hours, daily
  loss, drawdown, notional exposure, open orders, auto square-off: it agrees with the
  specification's reading, in which the first failing check of that list decides. A
  failing check records its reason, disables trading and makes the result false; when all
  pass the reason is cleared and trading is enabled. With a daily loss cap of 10000 and a
  daily P&L of -10500 inside trading hours, the result is false with the reason "Daily
  loss limit exceeded" and trading disabled.
\<close>

theorem check_all_risk_limits_first_failure:
  "check_all_risk_limits s now1 now2 = spec_check_all_limits s now1 now2
   \<and> (fst (check_all_risk_limits s now1 now2)
        \<longleftrightarrow> rm_trading_enabled (snd (check_all_risk_limits s now1 now2)))
   \<and> (fst (check_all_risk_limits s now1 now2)
        \<longleftrightarrow> rm_risk_breach_reason (snd (check_all_risk_limits s now1 now2)) = None)
   \<and> (check_market_hours s now1 \<and> max_daily_loss (rm_risk_params s) = 10000
        \<and> rm_daily_pnl s = - 10500 \<longrightarrow>
      check_all_risk_limits s now1 now2 =
        (False, s\<lparr> rm_trading_enabled := False, rm_risk_breach := True,
                   rm_risk_breach_reason := Some ''Daily loss limit exceeded'' \<rparr>))"
proof -
  have refines: "check_all_risk_limits s now1 now2 = spec_check_all_limits s now1 now2"
    by (simp add: check_all_risk_limits_def spec_check_all_limits_def spec_checks_def breach_def)
  have enabled: "fst (check_all_risk_limits s now1 now2)
        \<longleftrightarrow> rm_trading_enabled (snd (check_all_risk_limits s now1 now2))"
    by (simp add: check_all_risk_limits_def breach_def)
  have reason: "fst (check_all_risk_limits s now1 now2)
        \<longleftrightarrow> rm_risk_breach_reason (snd (check_all_risk_limits s now1 now2)) = None"
    by (simp add: check_all_risk_limits_def breach_def)
  have scenario: "check_all_risk_limits s now1 now2 =
        (False, s\<lparr> rm_trading_enabled := False, rm_risk_breach := True,
                   rm_risk_breach_reason := Some ''Daily loss limit exceeded'' \<rparr>)"
    if "check_market_hours s now1" "max_daily_loss (rm_risk_params s) = 10000"
       "rm_daily_pnl s = - 10500"
    using that by (simp add: check_all_risk_limits_def breach_def check_daily_loss_limit_def)
  show ?thesis using refines enabled reason scenario by blast
qed

theorem check_all_risk_limits_first_failure_witness:
  "check_market_hours ((RiskManager_init None)\<lparr>rm_daily_pnl := - 10500\<rparr>) (Time 10 0 0 0)
   \<and> max_daily_loss (rm_risk_params ((RiskManager_init None)\<lparr>rm_daily_pnl := - 10500\<rparr>)) = 10000
   \<and> fst (check_all_risk_limits ((RiskManager_init None)\<lparr>rm_daily_pnl := - 10500\<rparr>)
            (Time 10 0 0 0) (Time 10 0 2 0)) = False
   \<and> rm_risk_breach_reason (snd (check_all_risk_limits ((RiskManager_init None)\<lparr>rm_daily_pnl := - 10500\<rparr>)
            (Time 10 0 0 0) (Time 10 0 2 0))) = Some ''Daily loss limit exceeded''
   \<and> rm_trading_enabled (snd (check_all_risk_limits ((RiskManager_init None)\<lparr>rm_daily_pnl := - 10500\<rparr>)
            (Time 10 0 0 0) (Time 10 0 2 0))) = False"
proof -
  let ?s = "(RiskManager_init None)\<lparr>rm_daily_pnl := - 10500\<rparr>"
  have a: "check_market_hours ?s (Time 10 0 0 0)"
    by (simp add: check_market_hours_def RiskManager_init_def default_risk_params_def
        time_le_def time_lt_def)
  have b: "max_daily_loss (rm_risk_params ?s) = 10000"
    by (simp add: RiskManager_init_def default_risk_params_def)
  have c: "rm_daily_pnl ?s = - 10500" by simp
  have d: "check_all_risk_limits ?s (Time 10 0 0 0) (Time 10 0 2 0) =
        (False, ?s\<lparr> rm_trading_enabled := False, rm_risk_breach := True,
                   rm_risk_breach_reason := Some ''Daily loss limit exceeded'' \<rparr>)"
    using check_all_risk_limits_first_failure [of ?s "Time 10 0 0 0" "Time 10 0 2 0"] a b c
    by blast
  show ?thesis using a b by (simp add: d)
qed

subsection \<open>Drawdown\<close>










subsection \<open>RiskManager: P&L through the position-update interface\<close>

lemma pnl_loop_zero_avg:
  "\<forall>(i, p) \<in> set ps. rp_avg_price p = 0 \<Longrightarrow> pnl_loop ps t = (ps, t)"
  by (induction ps arbitrary: t) auto

lemma update_avg_zero:
  "\<forall>(i, p) \<in> set ps. rp_avg_price p = 0 \<Longrightarrow> rp_avg_price q = 0
   \<Longrightarrow> \<forall>(i, p) \<in> set (AList.update k q ps). rp_avg_price p = 0"
  by (induction ps) auto

lemma map_of_avg_zero:
  "\<forall>(i, p) \<in> set ps. rp_avg_price p = 0 \<Longrightarrow> map_of ps k = Some p \<Longrightarrow> rp_avg_price p = 0"
  by (auto dest: map_of_SomeD)

lemma risk_update_position_flat:
  assumes "flat_book s"
  shows "flat_book (risk_update_position s instrument quantity price)"
proof -
  let ?pos = "case map_of (rm_positions s) instrument of
                None \<Rightarrow> \<lparr>rp_quantity = 0, rp_avg_price = 0, rp_last_price = 0, rp_pnl = 0\<rparr>
              | Some p \<Rightarrow> p"
  let ?pos' = "?pos\<lparr>rp_quantity := quantity, rp_last_price := price\<rparr>"
  let ?ps = "AList.update instrument ?pos' (rm_positions s)"
  from assms have all0: "\<forall>(i, p) \<in> set (rm_positions s). rp_avg_price p = 0"
    and pk: "rm_peak_pnl s = 0"
    by (simp_all add: flat_book_def)
  have "rp_avg_price ?pos = 0"
    using map_of_avg_zero [OF all0] by (simp split: option.split)
  then have "rp_avg_price ?pos' = 0" by simp
  then have ps0: "\<forall>(i, p) \<in> set ?ps. rp_avg_price p = 0"
    using update_avg_zero [OF all0] by blast
  have loop: "pnl_loop ?ps 0 = (?ps, 0)"
    by (rule pnl_loop_zero_avg [OF ps0])
  show ?thesis
    unfolding flat_book_def risk_update_position_def risk_update_pnl_def Let_def
    using loop ps0 pk by simp
qed

lemma risk_update_positions_flat:
  "flat_book s \<Longrightarrow> flat_book (risk_update_positions s calls)"
  by (induction s calls rule: risk_update_positions.induct)
     (simp_all add: risk_update_position_flat)

lemma init_flat: "flat_book (RiskManager_init p)"
  by (simp add: flat_book_def RiskManager_init_def)

lemma risk_update_position_params:
  "rm_risk_params (risk_update_position s i q p) = rm_risk_params s"
  by (simp add: risk_update_position_def risk_update_pnl_def Let_def split: prod.split)

lemma risk_update_positions_params:
  "rm_risk_params (risk_update_positions s calls) = rm_risk_params s"
  by (induction s calls rule: risk_update_positions.induct)
     (simp_all add: risk_update_position_params)

text \<open>
  C10. After any sequence of \<open>update_position\<close> calls on a fresh risk manager, the daily
  P&L, the peak P&L and the drawdown are exactly 0, because no position ever gets an
  average price; with non-negative loss and drawdown caps the two checks therefore pass,
  and \<open>check_all_risk_limits\<close> never records a daily-loss or drawdown breach.
\<close>

theorem daily_pnl_stays_zero:
  assumes "s = risk_update_positions (RiskManager_init params) calls"
  shows "rm_daily_pnl s = 0 \<and> rm_peak_pnl s = 0 \<and> rm_current_drawdown s = 0
     \<and> (\<forall>(i, p) \<in> set (rm_positions s). rp_avg_price p = 0)
     \<and> (0 \<le> max_daily_loss (rm_risk_params s) \<and> 0 \<le> max_drawdown (rm_risk_params s) \<longrightarrow>
          check_daily_loss_limit s \<and> check_drawdown_limit s
          \<and> rm_risk_breach_reason (snd (check_all_risk_limits s now1 now2))
               \<noteq> Some ''Daily loss limit exceeded''
          \<and> rm_risk_breach_reason (snd (check_all_risk_limits s now1 now2))
               \<noteq> Some ''Drawdown limit exceeded'')"
proof -
  have flat: "flat_book s"
    unfolding assms by (rule risk_update_positions_flat [OF init_flat])
  then have zero: "rm_daily_pnl s = 0" "rm_peak_pnl s = 0" "rm_current_drawdown s = 0"
    and avg: "\<forall>(i, p) \<in> set (rm_positions s). rp_avg_price p = 0"
    by (simp_all add: flat_book_def)
  have limits: "check_daily_loss_limit s \<and> check_drawdown_limit s
      \<and> rm_risk_breach_reason (snd (check_all_risk_limits s now1 now2))
           \<noteq> Some ''Daily loss limit exceeded''
      \<and> rm_risk_breach_reason (snd (check_all_risk_limits s now1 now2))
           \<noteq> Some ''Drawdown limit exceeded''"
    if "0 \<le> max_daily_loss (rm_risk_params s)" "0 \<le> max_drawdown (rm_risk_params s)"
  proof -
    have a: "check_daily_loss_limit s" using that zero by (simp add: check_daily_loss_limit_def)
    have b: "check_drawdown_limit s" using that zero by (simp add: check_drawdown_limit_def)
    show ?thesis using a b by (simp add: check_all_risk_limits_def breach_def)
  qed
  show ?thesis using zero avg limits by blast
qed

theorem daily_pnl_stays_zero_witness:
  "rm_daily_pnl (risk_update_positions (RiskManager_init None) demo_calls) = 0
   \<and> map rp_quantity (map snd (rm_positions (risk_update_positions (RiskManager_init None) demo_calls))) = [12, - 5]
   \<and> check_daily_loss_limit (risk_update_positions (RiskManager_init None) demo_calls)
   \<and> check_drawdown_limit (risk_update_positions (RiskManager_init None) demo_calls)"
proof -
  have p: "rm_risk_params (risk_update_positions (RiskManager_init None) demo_calls) = default_risk_params"
    by (simp add: risk_update_positions_params RiskManager_init_def)
  have q: "map rp_quantity (map snd (rm_positions (risk_update_positions (RiskManager_init None) demo_calls))) = [12, - 5]"
    by (simp add: demo_calls_def RiskManager_init_def risk_update_position_def risk_update_pnl_def)
  show ?thesis
    using daily_pnl_stays_zero [OF refl, of None demo_calls] p q
    by (simp add: default_risk_params_def)
qed

subsection \<open>Backtest: closing a long position\<close>

lemma map_of_update_same: "map_of (AList.update k v ps) k = Some v"
  by (simp add: update_conv')

lemma position_of_update:
  "position_of (backtest_update_position s t) (t_instrument t) =
     Some (apply_trade
       (case position_of s (t_instrument t) of
          None \<Rightarrow> \<lparr> bp_quantity = 0, bp_avg_price = 0, bp_current_price = t_price t,
                     bp_realized_pnl = 0 \<rparr>
        | Some p \<Rightarrow> p)
       (t_action t) (t_quantity t) (t_price t))"
  by (simp add: position_of_def backtest_update_position_def Let_def map_of_update_same)

lemma round_trip_value:
  "bt_positions round_trip =
     [(''X'', \<lparr> bp_quantity = 0, bp_avg_price = 4691 / 2, bp_current_price = 2350,
                bp_realized_pnl = 45 \<rparr>)]"
  by (simp add: round_trip_def backtest_update_position_def backtest_start_def apply_trade_def Let_def
      buy10_def sell10_def)

lemma after_buy10:
  "position_of (backtest_update_position backtest_start buy10) ''X'' =
     Some \<lparr> bp_quantity = 10, bp_avg_price = 4691 / 2, bp_current_price = 4691 / 2,
            bp_realized_pnl = 0 \<rparr>"
  by (simp add: position_of_def backtest_update_position_def backtest_start_def apply_trade_def
      buy10_def Let_def)

text \<open>
  C3. A long position of quantity Q > 0 and average price A that a single SELL of Q at
  price P closes in full has its realized P&L increased by exactly (P - A) * Q and ends
  with quantity 0. Starting from a capital of 100000, BUY 10 at 2345.50 followed by SELL 10
  at 2350.00 on one instrument gives a realized P&L of 45, an equity of 100045 and a
  quantity of 0.
\<close>

theorem full_close_realizes:
  "(position_of s (t_instrument t) = Some pos \<and> 0 < bp_quantity pos
      \<and> t_action t = ''SELL'' \<and> t_quantity t = bp_quantity pos \<longrightarrow>
    (\<exists>pos'. position_of (backtest_update_position s t) (t_instrument t) = Some pos'
      \<and> bp_realized_pnl pos' = bp_realized_pnl pos
            + (t_price t - bp_avg_price pos) * of_int (bp_quantity pos)
      \<and> bp_quantity pos' = 0))
   \<and> position_of round_trip ''X'' =
        Some \<lparr> bp_quantity = 0, bp_avg_price = 4691 / 2, bp_current_price = 2350,
               bp_realized_pnl = 45 \<rparr>
   \<and> calculate_equity round_trip 100000 = 100045"
proof -
  have general: "\<exists>pos'. position_of (backtest_update_position s t) (t_instrument t) = Some pos'
      \<and> bp_realized_pnl pos' = bp_realized_pnl pos
            + (t_price t - bp_avg_price pos) * of_int (bp_quantity pos)
      \<and> bp_quantity pos' = 0"
    if "position_of s (t_instrument t) = Some pos" "0 < bp_quantity pos"
       "t_action t = ''SELL''" "t_quantity t = bp_quantity pos"
    using that by (simp add: position_of_update apply_trade_def Let_def)
  have scenario: "position_of round_trip ''X'' =
        Some \<lparr> bp_quantity = 0, bp_avg_price = 4691 / 2, bp_current_price = 2350,
               bp_realized_pnl = 45 \<rparr>
      \<and> calculate_equity round_trip 100000 = 100045"
    by (simp add: position_of_def round_trip_value calculate_equity_def)
  show ?thesis using general scenario by blast
qed

theorem full_close_realizes_witness:
  "position_of (backtest_update_position backtest_start buy10) ''X'' =
     Some \<lparr> bp_quantity = 10, bp_avg_price = 4691 / 2, bp_current_price = 4691 / 2,
            bp_realized_pnl = 0 \<rparr>
   \<and> (\<exists>pos'. position_of round_trip ''X'' = Some pos'
         \<and> bp_realized_pnl pos' = 45 \<and> bp_quantity pos' = 0)"
proof -
  let ?s = "backtest_update_position backtest_start buy10"
  let ?pos = "\<lparr> bp_quantity = 10, bp_avg_price = 4691 / 2, bp_current_price = 4691 / 2,
            bp_realized_pnl = 0 \<rparr>"
  have i: "t_instrument sell10 = ''X''" and a: "t_action sell10 = ''SELL''"
    and q: "t_quantity sell10 = 10" and p: "t_price sell10 = 2350"
    by (simp_all add: sell10_def)
  have "\<exists>pos'. position_of (backtest_update_position ?s sell10) (t_instrument sell10) = Some pos'
      \<and> bp_realized_pnl pos' = bp_realized_pnl ?pos
            + (t_price sell10 - bp_avg_price ?pos) * of_int (bp_quantity ?pos)
      \<and> bp_quantity pos' = 0"
    using full_close_realizes [of ?s sell10 ?pos] after_buy10 i a q by simp
  then have "\<exists>pos'. position_of round_trip ''X'' = Some pos'
         \<and> bp_realized_pnl pos' = 45 \<and> bp_quantity pos' = 0"
    by (simp add: i p round_trip_def)
  then show ?thesis using after_buy10 by simp
qed

subsection \<open>Backtest: average price of BUY fills\<close>

lemma apply_buy:
  assumes "0 \<le> bp_quantity pos" and "0 < q"
  shows "bp_quantity (apply_trade pos ''BUY'' q p) = bp_quantity pos + q"
    and "of_int (bp_quantity pos + q) * bp_avg_price (apply_trade pos ''BUY'' q p)
           = of_int (bp_quantity pos) * bp_avg_price pos + of_int q * p"
proof -
  from assms have nz: "bp_quantity pos + q \<noteq> 0" by simp
  show "bp_quantity (apply_trade pos ''BUY'' q p) = bp_quantity pos + q"
    using nz by (simp add: apply_trade_def Let_def)
  have nzr: "(of_int (bp_quantity pos + q) :: rat) \<noteq> 0"
    using nz by (simp only: of_int_eq_0_iff not_False_eq_True)
  have avg: "bp_avg_price (apply_trade pos ''BUY'' q p)
      = (of_int (bp_quantity pos) * bp_avg_price pos + of_int q * p) / of_int (bp_quantity pos + q)"
    using nz by (simp add: apply_trade_def Let_def)
  show "of_int (bp_quantity pos + q) * bp_avg_price (apply_trade pos ''BUY'' q p)
           = of_int (bp_quantity pos) * bp_avg_price pos + of_int q * p"
    unfolding avg using nzr by simp
qed

lemma buys_from_position:
  assumes "list_all (buy_of i) ts" and "position_of s i = Some pos" and "0 \<le> bp_quantity pos"
  shows "\<exists>pos'. position_of (backtest_update_positions s ts) i = Some pos'
      \<and> bp_quantity pos' = bp_quantity pos + total_quantity ts
      \<and> of_int (bp_quantity pos') * bp_avg_price pos'
          = of_int (bp_quantity pos) * bp_avg_price pos + total_value ts"
  using assms
proof (induction ts arbitrary: s pos)
  case Nil
  then show ?case by (simp add: total_quantity_def total_value_def)
next
  case (Cons t ts)
  let ?pos1 = "apply_trade pos ''BUY'' (t_quantity t) (t_price t)"
  from Cons.prems(1) have head: "buy_of i t" and rest: "list_all (buy_of i) ts"
    by simp_all
  from head have t: "t_instrument t = i" "t_action t = ''BUY''" "0 < t_quantity t"
    by (simp_all add: buy_of_def)
  have step: "position_of (backtest_update_position s t) i = Some ?pos1"
    using position_of_update [of s t] t Cons.prems(2) by simp
  have q1: "bp_quantity ?pos1 = bp_quantity pos + t_quantity t"
    and v1: "of_int (bp_quantity pos + t_quantity t) * bp_avg_price ?pos1
           = of_int (bp_quantity pos) * bp_avg_price pos + of_int (t_quantity t) * t_price t"
    using apply_buy [OF Cons.prems(3) t(3)] by blast+
  have nonneg: "0 \<le> bp_quantity ?pos1" using q1 Cons.prems(3) t(3) by simp
  from Cons.IH [OF rest step nonneg] obtain pos' where
    p: "position_of (backtest_update_positions (backtest_update_position s t) ts) i = Some pos'"
    and q: "bp_quantity pos' = bp_quantity ?pos1 + total_quantity ts"
    and v: "of_int (bp_quantity pos') * bp_avg_price pos'
          = of_int (bp_quantity ?pos1) * bp_avg_price ?pos1 + total_value ts"
    by blast
  have "bp_quantity pos' = bp_quantity pos + total_quantity (t # ts)"
    using q q1 by (simp add: total_quantity_def)
  moreover have "of_int (bp_quantity pos') * bp_avg_price pos'
          = of_int (bp_quantity pos) * bp_avg_price pos + total_value (t # ts)"
    using v v1 q1 by (simp add: total_value_def)
  ultimately show ?case using p by simp
qed

lemma total_quantity_pos:
  "list_all (buy_of i) ts \<Longrightarrow> ts \<noteq> [] \<Longrightarrow> 0 < total_quantity ts"
proof (induction ts)
  case Nil
  then show ?case by simp
next
  case (Cons t ts)
  then show ?case
    by (cases ts) (auto simp add: total_quantity_def buy_of_def)
qed

text \<open>
  C4. For every non-empty sequence of BUY fills with positive quantities on an instrument
  whose position is empty (absent from the book, or with quantity 0 and average price 0),
  the resulting quantity is the sum of the fill quantities and the resulting average price
  is the quantity-weighted mean of the fill prices.
\<close>

theorem buys_weighted_mean:
  assumes "ts \<noteq> []"
    and "list_all (buy_of i) ts"
    and "position_of s i = None
         \<or> (\<exists>pos. position_of s i = Some pos \<and> bp_quantity pos = 0 \<and> bp_avg_price pos = 0)"
  shows "\<exists>pos'. position_of (backtest_update_positions s ts) i = Some pos'
      \<and> bp_quantity pos' = total_quantity ts
      \<and> bp_avg_price pos' = total_value ts / of_int (total_quantity ts)"
proof -
  from assms(1) obtain t rest where ts: "ts = t # rest" by (cases ts) auto
  from assms(2) ts have head: "buy_of i t" and rest: "list_all (buy_of i) rest"
    by simp_all
  from head have t: "t_instrument t = i" "t_action t = ''BUY''" "0 < t_quantity t"
    by (simp_all add: buy_of_def)
  define pos0 where "pos0 = (case position_of s i of
          None \<Rightarrow> \<lparr> bp_quantity = 0, bp_avg_price = 0, bp_current_price = t_price t,
                     bp_realized_pnl = 0 \<rparr>
        | Some p \<Rightarrow> p)"
  have z: "bp_quantity pos0 = 0" "bp_avg_price pos0 = 0"
    using assms(3) by (auto simp add: pos0_def)
  let ?pos1 = "apply_trade pos0 ''BUY'' (t_quantity t) (t_price t)"
  have step: "position_of (backtest_update_position s t) i = Some ?pos1"
    using position_of_update [of s t] t by (simp add: pos0_def)
  have q1: "bp_quantity ?pos1 = t_quantity t"
    and v1: "of_int (t_quantity t) * bp_avg_price ?pos1 = of_int (t_quantity t) * t_price t"
    using apply_buy [of pos0 "t_quantity t" "t_price t"] z t(3) by simp_all
  have nonneg: "0 \<le> bp_quantity ?pos1" using q1 t(3) by simp
  from buys_from_position [OF rest step nonneg] obtain pos' where
    p: "position_of (backtest_update_positions (backtest_update_position s t) rest) i = Some pos'"
    and q: "bp_quantity pos' = bp_quantity ?pos1 + total_quantity rest"
    and v: "of_int (bp_quantity pos') * bp_avg_price pos'
          = of_int (bp_quantity ?pos1) * bp_avg_price ?pos1 + total_value rest"
    by blast
  have qty: "bp_quantity pos' = total_quantity ts"
    using q q1 by (simp add: ts total_quantity_def)
  have val: "of_int (total_quantity ts) * bp_avg_price pos' = total_value ts"
    using v v1 q1 qty by (simp add: ts total_value_def)
  have "0 < total_quantity ts" by (rule total_quantity_pos [OF assms(2) assms(1)])
  then have nz: "(of_int (total_quantity ts) :: rat) \<noteq> 0" by simp
  have "bp_avg_price pos' = total_value ts / of_int (total_quantity ts)"
    using val nz by (simp add: nonzero_eq_divide_eq mult.commute)
  then show ?thesis using p qty by (simp add: ts)
qed

theorem buys_weighted_mean_witness:
  "two_buys \<noteq> [] \<and> list_all (buy_of ''X'') two_buys \<and> position_of backtest_start ''X'' = None
   \<and> position_of (backtest_update_positions backtest_start two_buys) ''X'' =
       Some \<lparr> bp_quantity = 40, bp_avg_price = 175, bp_current_price = 200, bp_realized_pnl = 0 \<rparr>
   \<and> (\<exists>pos'. position_of (backtest_update_positions backtest_start two_buys) ''X'' = Some pos'
         \<and> bp_quantity pos' = 40 \<and> bp_avg_price pos' = 175)"
proof -
  have a: "two_buys \<noteq> []" by (simp add: two_buys_def)
  have b: "list_all (buy_of ''X'') two_buys" by (simp add: two_buys_def buy_of_def)
  have c: "position_of backtest_start ''X'' = None"
    by (simp add: position_of_def backtest_start_def)
  have d: "total_quantity two_buys = 40" "total_value two_buys = 7000"
    by (simp_all add: two_buys_def total_quantity_def total_value_def)
  have e: "position_of (backtest_update_positions backtest_start two_buys) ''X'' =
       Some \<lparr> bp_quantity = 40, bp_avg_price = 175, bp_current_price = 200, bp_realized_pnl = 0 \<rparr>"
    by (simp add: two_buys_def position_of_def backtest_update_position_def backtest_start_def
        apply_trade_def Let_def)
  have "\<exists>pos'. position_of (backtest_update_positions backtest_start two_buys) ''X'' = Some pos'
      \<and> bp_quantity pos' = total_quantity two_buys
      \<and> bp_avg_price pos' = total_value two_buys / of_int (total_quantity two_buys)"
    using buys_weighted_mean [OF a b] c by blast
  then have "\<exists>pos'. position_of (backtest_update_positions backtest_start two_buys) ''X'' = Some pos'
         \<and> bp_quantity pos' = 40 \<and> bp_avg_price pos' = 175"
    by (simp add: d)
  then show ?thesis using a b c e by blast
qed

subsection \<open>Backtest: the average price of a closed position\<close>

lemma sell_avg_price:
  "bp_avg_price (apply_trade pos ''SELL'' q p) =
     (if 0 < bp_quantity pos \<and> bp_quantity pos < q then p else bp_avg_price pos)"
  by (simp add: apply_trade_def Let_def)

text \<open>
  C5, as amended. The average price is not reset when a position's quantity returns to 0.
  A BUY of q > 0 at a non-zero price p on an instrument not yet in the book, followed by
  a SELL of q, leaves quantity 0 and average price p. A SELL changes the average price only
  when the position crosses from long to short, and then to the fill price. A position of
  quantity 0 adds no unrealized P&L to the equity, whatever its average price.
\<close>

theorem avg_price_kept_at_zero_quantity:
  "(position_of s i = None \<and> 0 < q \<and> p \<noteq> 0
      \<and> t_instrument b = i \<and> t_action b = ''BUY'' \<and> t_quantity b = q \<and> t_price b = p
      \<and> t_instrument c = i \<and> t_action c = ''SELL'' \<and> t_quantity c = q \<longrightarrow>
    (\<exists>pos. position_of (backtest_update_position (backtest_update_position s b) c) i = Some pos
       \<and> bp_quantity pos = 0 \<and> bp_avg_price pos = p))
   \<and> bp_avg_price (apply_trade pos0 ''SELL'' q0 p0) =
        (if 0 < bp_quantity pos0 \<and> bp_quantity pos0 < q0 then p0 else bp_avg_price pos0)
   \<and> (bp_quantity held = 0 \<longrightarrow>
        add_unrealized ((k, held) # rest) equity = add_unrealized rest equity)"
proof -
  have round: "\<exists>pos. position_of (backtest_update_position (backtest_update_position s b) c) i = Some pos
       \<and> bp_quantity pos = 0 \<and> bp_avg_price pos = p"
    if "position_of s i = None" "0 < q" "p \<noteq> 0"
       "t_instrument b = i" "t_action b = ''BUY''" "t_quantity b = q" "t_price b = p"
       "t_instrument c = i" "t_action c = ''SELL''" "t_quantity c = q"
  proof -
    let ?p0 = "\<lparr> bp_quantity = 0, bp_avg_price = 0, bp_current_price = p, bp_realized_pnl = 0 \<rparr>"
    have b: "position_of (backtest_update_position s b) i = Some (apply_trade ?p0 ''BUY'' q p)"
      using position_of_update [of s b] that by simp
    have c: "position_of (backtest_update_position (backtest_update_position s b) c) i
        = Some (apply_trade (apply_trade ?p0 ''BUY'' q p) ''SELL'' q (t_price c))"
      using position_of_update [of "backtest_update_position s b" c] that b by simp
    have "bp_quantity (apply_trade (apply_trade ?p0 ''BUY'' q p) ''SELL'' q (t_price c)) = 0"
      using that(2) by (simp add: apply_trade_def Let_def)
    moreover have "bp_avg_price (apply_trade (apply_trade ?p0 ''BUY'' q p) ''SELL'' q (t_price c)) = p"
      using that(2) by (simp add: apply_trade_def Let_def)
    ultimately show ?thesis using c by simp
  qed
  have unreal: "add_unrealized ((k, held) # rest) equity = add_unrealized rest equity"
    if "bp_quantity held = 0"
    using that by simp
  show ?thesis using round sell_avg_price [of pos0 q0 p0] unreal by blast
qed

theorem avg_price_kept_at_zero_quantity_witness:
  "position_of backtest_start ''X'' = None
   \<and> (\<exists>pos. position_of round_trip ''X'' = Some pos
         \<and> bp_quantity pos = 0 \<and> bp_avg_price pos = 4691 / 2)
   \<and> add_unrealized (bt_positions round_trip) 100045 = 100045"
proof -
  have a: "position_of backtest_start ''X'' = None"
    by (simp add: position_of_def backtest_start_def)
  have b: "t_instrument buy10 = ''X''" "t_action buy10 = ''BUY''" "t_quantity buy10 = 10"
    "t_price buy10 = 4691 / 2"
    by (simp_all add: buy10_def)
  have c: "t_instrument sell10 = ''X''" "t_action sell10 = ''SELL''" "t_quantity sell10 = 10"
    by (simp_all add: sell10_def)
  have nz: "(4691 / 2 :: rat) \<noteq> 0" by simp
  have u: "add_unrealized (bt_positions round_trip) 100045 = 100045"
    using avg_price_kept_at_zero_quantity
      [where held = "\<lparr> bp_quantity = 0, bp_avg_price = 4691 / 2, bp_current_price = 2350,
                bp_realized_pnl = 45 \<rparr>" and k = "''X''" and rest = "[]"
         and equity = 100045]
    by (simp add: round_trip_value)
  have "\<exists>pos. position_of (backtest_update_position (backtest_update_position backtest_start buy10) sell10) ''X'' = Some pos
       \<and> bp_quantity pos = 0 \<and> bp_avg_price pos = 4691 / 2"
    using avg_price_kept_at_zero_quantity
      [where s = backtest_start and i = "''X''" and q = 10 and p = "4691 / 2"
         and b = buy10 and c = sell10] a b c nz
    by simp
  then show ?thesis using a u by (simp add: round_trip_def)
qed

text \<open>
  C5 as stated, that the average price is non-zero only while the quantity is non-zero,
  fails: after BUY 10 at 2345.50 and SELL 10 at 2350.00 the quantity is 0 and the average
  price is still 2345.50.
\<close>

theorem avg_price_stale_after_round_trip:
  "map (\<lambda>(i, p). (i, bp_quantity p, bp_avg_price p)) (bt_positions round_trip)
     = [(''X'', 0, 4691 / 2)]
   \<and> (4691 / 2 :: rat) \<noteq> 0"
  by (simp add: round_trip_value)

subsection \<open>Backtest: win rate\<close>

lemma update_position_trades:
  "bt_trades (backtest_update_position s t) = bt_trades s"
  by (simp add: backtest_update_position_def Let_def)

lemma execute_signal_appends:
  assumes "execute_signal s sg timestamp = Inr s'"
  shows "bt_trades s' = bt_trades s
     \<or> (\<exists>t. bt_trades s' = bt_trades s @ [t] \<and> t_pnl t = None)"
proof (cases "sg_price sg")
  case None
  then show ?thesis using assms by (simp add: execute_signal_def Let_def)
next
  case (Some price)
  then show ?thesis
    using assms
    by (auto simp add: execute_signal_def Let_def update_position_trades split: if_splits)
qed

lemma execute_signal_no_pnl:
  assumes "execute_signal s sg timestamp = Inr s'"
    and "list_all (\<lambda>t. t_pnl t = None) (bt_trades s)"
  shows "list_all (\<lambda>t. t_pnl t = None) (bt_trades s')"
  using execute_signal_appends [OF assms(1)] assms(2) by auto

lemma execute_signals_no_pnl:
  "execute_signals s sigs = Inr s' \<Longrightarrow> list_all (\<lambda>t. t_pnl t = None) (bt_trades s)
    \<Longrightarrow> list_all (\<lambda>t. t_pnl t = None) (bt_trades s')"
proof (induction s sigs rule: execute_signals.induct)
  case (1 s)
  then show ?case by simp
next
  case (2 s sg timestamp rest)
  then show ?case
    by (auto split: sum.splits dest: execute_signal_no_pnl)
qed

lemma win_rate_no_pnl:
  "list_all (\<lambda>t. t_pnl t = None) trades \<Longrightarrow> win_rate trades = 0"
proof -
  assume "list_all (\<lambda>t. t_pnl t = None) trades"
  then have "filter (\<lambda>t. trade_pnl t > 0) trades = []"
    by (induction trades) (simp_all add: trade_pnl_def)
  then show ?thesis by (simp add: win_rate_def)
qed

lemma profitable_run:
  "execute_signals backtest_start profitable_signals =
     Inr (round_trip\<lparr>bt_trades := [buy10, sell10]\<rparr>)"
  by (simp add: profitable_signals_def execute_signal_def Let_def round_trip_def
      backtest_start_def backtest_update_position_def buy10_def sell10_def)

text \<open>
  C9. A trade record appended by \<open>execute_signal\<close> never has the \<open>pnl\<close> key that the
  win-rate computation reads, so for every run of signals from the start of a backtest
  that completes, the win rate is 0, also when a trade closed at a profit.
\<close>

theorem win_rate_always_zero:
  "(execute_signal s0 sg timestamp = Inr s1 \<longrightarrow>
      bt_trades s1 = bt_trades s0
      \<or> (\<exists>t. bt_trades s1 = bt_trades s0 @ [t] \<and> t_pnl t = None))
   \<and> (execute_signals backtest_start sigs = Inr s \<longrightarrow>
        list_all (\<lambda>t. t_pnl t = None) (bt_trades s) \<and> win_rate (bt_trades s) = 0)"
proof -
  have run: "list_all (\<lambda>t. t_pnl t = None) (bt_trades s) \<and> win_rate (bt_trades s) = 0"
    if "execute_signals backtest_start sigs = Inr s"
  proof -
    have "list_all (\<lambda>t. t_pnl t = None) (bt_trades s)"
      by (rule execute_signals_no_pnl [OF that]) (simp add: backtest_start_def)
    then show ?thesis by (simp add: win_rate_no_pnl)
  qed
  show ?thesis using execute_signal_appends [of s0 sg timestamp s1] run by blast
qed

theorem win_rate_always_zero_witness:
  "execute_signals backtest_start profitable_signals =
     Inr (round_trip\<lparr>bt_trades := [buy10, sell10]\<rparr>)
   \<and> map (bp_realized_pnl \<circ> snd) (bt_positions round_trip) = [45]
   \<and> win_rate [buy10, sell10] = 0"
proof -
  have "win_rate (bt_trades (round_trip\<lparr>bt_trades := [buy10, sell10]\<rparr>)) = 0"
    using win_rate_always_zero [where sigs = profitable_signals
        and s = "round_trip\<lparr>bt_trades := [buy10, sell10]\<rparr>"] profitable_run
    by blast
  then show ?thesis using profitable_run by (simp add: round_trip_value)
qed

subsection \<open>MarketMaking: quoted prices\<close>

lemma py_round_unfold:
  "py_round x =
     (if x - of_int \<lfloor>x\<rfloor> < 1 / 2 then \<lfloor>x\<rfloor>
      else if x - of_int \<lfloor>x\<rfloor> > 1 / 2 then \<lfloor>x\<rfloor> + 1
      else if even \<lfloor>x\<rfloor> then \<lfloor>x\<rfloor> else \<lfloor>x\<rfloor> + 1)"
  by (simp add: py_round_def Let_def)

lemma py_round_nearest: "nearest_ties_even x (py_round x)"
proof -
  define f where "f = \<lfloor>x\<rfloor>"
  have lo: "of_int f \<le> x" and hi: "x < of_int f + 1"
    unfolding f_def by linarith+
  have "\<bar>of_int (if x - of_int f < 1 / 2 then f
                   else if x - of_int f > 1 / 2 then f + 1
                   else if even f then f else f + 1) - x\<bar> \<le> 1 / 2"
    using lo hi by (auto simp add: abs_if)
  moreover have "even (if x - of_int f < 1 / 2 then f
                   else if x - of_int f > 1 / 2 then f + 1
                   else if even f then f else f + 1)"
    if "x - of_int f = 1 / 2"
    using that by simp
  ultimately show ?thesis
    unfolding nearest_ties_even_def py_round_unfold f_def by blast
qed

lemma py_round_half_up:
  assumes "x - of_int \<lfloor>x\<rfloor> \<noteq> 1 / 2"
  shows "py_round x = spec_round_half_up x"
proof -
  define f where "f = \<lfloor>x\<rfloor>"
  have lo: "of_int f \<le> x" and hi: "x < of_int f + 1"
    unfolding f_def by linarith+
  from assms have ne: "x - of_int f \<noteq> 1 / 2" by (simp add: f_def)
  show ?thesis
  proof (cases "x - of_int f < 1 / 2")
    case True
    have "\<lfloor>x + 1 / 2\<rfloor> = f"
    proof (rule floor_unique)
      show "of_int f \<le> x + 1 / 2" using lo by linarith
      show "x + 1 / 2 < of_int f + 1" using True by linarith
    qed
    then show ?thesis
      using True unfolding py_round_unfold spec_round_half_up_def f_def by simp
  next
    case False
    with ne have gt: "x - of_int f > 1 / 2" by linarith
    have "\<lfloor>x + 1 / 2\<rfloor> = f + 1"
    proof (rule floor_unique)
      show "of_int (f + 1) \<le> x + 1 / 2" using gt by simp
      show "x + 1 / 2 < of_int (f + 1) + 1" using hi by simp
    qed
    then show ?thesis
      using gt False unfolding py_round_unfold spec_round_half_up_def f_def by simp
  qed
qed

lemma round_to_increment_quotient:
  "fdiv price increment = Inr (Finite q) \<Longrightarrow>
   round_to_increment price increment = int_times_float (py_round q) increment"
  by (simp add: round_to_increment_def)

lemma scenario_bid_quotient:
  "fdiv (fsub (fl (2242835 / 100)) (fmul (fl (2242835 / 100)) (spread_percentage scenario_params)))
        (min_price_increment scenario_params)
     = Inr (Finite (7702469219069197 / 17179869184))"
  by code_simp

lemma scenario_bid_not_tie:
  "(7702469219069197 / 17179869184 :: rat) - of_int \<lfloor>7702469219069197 / 17179869184 :: rat\<rfloor>
     \<noteq> 1 / 2"
  by code_simp

lemma scenario_bid:
  "calculate_bid_price scenario_params (fl (2242835 / 100)) = Inr (fl (2241715 / 100))"
  by code_simp

lemma scenario_ask:
  "calculate_ask_price scenario_params (fl (2242835 / 100))
     = Inr (Finite (1542034134191309 / 68719476736))"
  by code_simp

lemma scenario_ask_printed:
  "fl (22439550000000003 / 1000000000000) = Finite (1542034134191309 / 68719476736)"
  by code_simp

lemma scenario_ask_nominal:
  "fl (2243955 / 100) = Finite (1542034134191309 / 68719476736 - 1 / 274877906944)"
  by code_simp

lemma scenario_ask_differs:
  "calculate_ask_price scenario_params (fl (2242835 / 100)) \<noteq> Inr (fl (2243955 / 100))"
  by code_simp

lemma ask_at_150:
  "calculate_ask_price scenario_params (fl 150) = Inr (fl (15005 / 100))"
  by code_simp

lemma half_up_at_150:
  "of_int (spec_round_half_up ((150 + 150 * (5 / 10000)) / (5 / 100))) * (5 / 100)
     = (1501 / 10 :: rat)"
  by code_simp

lemma tie_bid: "calculate_bid_price tie_params (fl (1 / 4)) = Inr (Finite 0)"
  by code_simp

lemma tie_half_up:
  "of_int (spec_round_half_up ((1 / 4 - 1 / 4 * 0) / (1 / 2))) * (1 / 2) = (1 / 2 :: rat)"
  by code_simp

lemma zero_increment:
  "min_price_increment params = Finite 0 \<Longrightarrow>
   calculate_bid_price params mid = Inl ZeroDivisionError
   \<and> calculate_ask_price params mid = Inl ZeroDivisionError"
  by (simp add: calculate_bid_price_def calculate_ask_price_def round_to_increment_def Let_def)

lemma double_literals:
  "fl (1 / 10) = Finite (3602879701896397 / 36028797018963968)"
  "fl (2242835 / 100) = Finite (3082528952103731 / 137438953472)"
  "fl (5 / 10000) = Finite (1152921504606847 / 2305843009213693952)"
  "fl (5 / 100) = Finite (3602879701896397 / 72057594037927936)"
  by code_simp+

text \<open>
  C7, as amended. For every mid price, the quoted bid is mid - mid * spread_pct and the
  quoted ask is mid + mid * spread_pct, each divided by the increment, rounded to the
  nearest integer with a tie going to the even integer, and multiplied back, every
  operation in double precision: whenever the quotient computed in double precision is a
  finite number, the quote is the product, in double precision, of the increment and the
  integer nearest to that quotient (ties to even); an increment of zero raises
  ZeroDivisionError. This rounding agrees with rounding half up unless the value lies
  exactly half way between two integers. With spread_pct = 0.0005,
  increment = 0.05 and mid = 22428.35 the bid is 22417.15 and the ask is
  22439.550000000003, one unit in the last place above the double 22439.55.
\<close>

theorem quotes_round_ties_to_even:
  "(fdiv (fsub mid (fmul mid (spread_percentage params))) (min_price_increment params)
        = Inr (Finite q) \<longrightarrow>
      (\<exists>n. nearest_ties_even q n
         \<and> calculate_bid_price params mid = int_times_float n (min_price_increment params)))
   \<and> (fdiv (fadd mid (fmul mid (spread_percentage params))) (min_price_increment params)
        = Inr (Finite q') \<longrightarrow>
      (\<exists>n. nearest_ties_even q' n
         \<and> calculate_ask_price params mid = int_times_float n (min_price_increment params)))
   \<and> (min_price_increment params = Finite 0 \<longrightarrow>
        calculate_bid_price params mid = Inl ZeroDivisionError
        \<and> calculate_ask_price params mid = Inl ZeroDivisionError)
   \<and> (x - of_int \<lfloor>x\<rfloor> \<noteq> 1 / 2 \<longrightarrow> py_round x = spec_round_half_up x)
   \<and> calculate_bid_price scenario_params (fl (2242835 / 100)) = Inr (fl (2241715 / 100))
   \<and> calculate_ask_price scenario_params (fl (2242835 / 100))
        = Inr (fl (22439550000000003 / 1000000000000))
   \<and> fl (22439550000000003 / 1000000000000) = Finite (1542034134191309 / 68719476736)
   \<and> fl (2243955 / 100) = Finite (1542034134191309 / 68719476736 - 1 / 274877906944)"
proof -
  have bid: "\<exists>n. nearest_ties_even q n
         \<and> calculate_bid_price params mid = int_times_float n (min_price_increment params)"
    if "fdiv (fsub mid (fmul mid (spread_percentage params))) (min_price_increment params)
        = Inr (Finite q)"
  proof -
    have "calculate_bid_price params mid
        = int_times_float (py_round q) (min_price_increment params)"
      unfolding calculate_bid_price_def Let_def
      by (rule round_to_increment_quotient [OF that])
    then show ?thesis using py_round_nearest [of q] by blast
  qed
  have ask: "\<exists>n. nearest_ties_even q' n
         \<and> calculate_ask_price params mid = int_times_float n (min_price_increment params)"
    if "fdiv (fadd mid (fmul mid (spread_percentage params))) (min_price_increment params)
        = Inr (Finite q')"
  proof -
    have "calculate_ask_price params mid
        = int_times_float (py_round q') (min_price_increment params)"
      unfolding calculate_ask_price_def Let_def
      by (rule round_to_increment_quotient [OF that])
    then show ?thesis using py_round_nearest [of q'] by blast
  qed
  have printed: "calculate_ask_price scenario_params (fl (2242835 / 100))
        = Inr (fl (22439550000000003 / 1000000000000))"
    unfolding scenario_ask scenario_ask_printed by (rule refl)
  show ?thesis
    using bid ask zero_increment [of params mid] py_round_half_up [of x] scenario_bid printed
      scenario_ask_printed scenario_ask_nominal
    by blast
qed

theorem quotes_round_ties_to_even_witness:
  "fdiv (fsub (fl (2242835 / 100)) (fmul (fl (2242835 / 100)) (spread_percentage scenario_params)))
        (min_price_increment scenario_params)
     = Inr (Finite (7702469219069197 / 17179869184))
   \<and> (\<exists>n. nearest_ties_even (7702469219069197 / 17179869184) n
         \<and> calculate_bid_price scenario_params (fl (2242835 / 100))
             = int_times_float n (min_price_increment scenario_params))
   \<and> py_round (7702469219069197 / 17179869184)
        = spec_round_half_up (7702469219069197 / 17179869184)"
  using quotes_round_ties_to_even
      [where params = scenario_params and mid = "fl (2242835 / 100)"
         and q = "7702469219069197 / 17179869184" and x = "7702469219069197 / 17179869184"]
    scenario_bid_quotient scenario_bid_not_tie
  by blast

text \<open>
  C7 as stated, exact quotes rounded half up, fails in three ways. With no spread, an
  increment of 0.5 and a mid price of 0.25 the quotient is exactly 0.5: the code quotes 0,
  rounding half up gives 0.5. With the scenario's parameters and a mid price of 150 the
  exact quotient is 3001.5 and rounding half up gives 150.10, but the quotient in double
  precision lies below the tie and the code quotes 150.05. And the scenario's ask is not
  the double 22439.55.
\<close>

theorem quotes_differ_from_half_up:
  "calculate_bid_price tie_params (fl (1 / 4)) = Inr (Finite 0)
   \<and> of_int (spec_round_half_up ((1 / 4 - 1 / 4 * 0) / (1 / 2))) * (1 / 2) = (1 / 2 :: rat)
   \<and> calculate_ask_price scenario_params (fl 150) = Inr (fl (15005 / 100))
   \<and> of_int (spec_round_half_up ((150 + 150 * (5 / 10000)) / (5 / 100))) * (5 / 100)
        = (1501 / 10 :: rat)
   \<and> calculate_ask_price scenario_params (fl (2242835 / 100)) \<noteq> Inr (fl (2243955 / 100))"
  using tie_bid tie_half_up ask_at_150 half_up_at_150 scenario_ask_differs by blast

subsection \<open>OrderExecutor: orders in a terminal state\<close>

















end
